theory Spec2Isabelle
  imports Complex_Main "HOL-Library.AList"
begin

section \<open>The pipeline orchestrator of modules/core.py\<close>

text \<open>
  The orchestrator is effectful Python: it reads and writes the settings object
  \<^verbatim>\<open>modules.globals\<close>, prints, and calls collaborators that live outside the file
  (the video toolkit, the frame processors, the GUI, the operating system). The model
  threads a state through every function. The state holds the settings and a trace of
  the calls made so far; a collaborator's answer is given by an environment, as a function
  of the trace at the moment of the call, and may be an exception.

  What the model leaves out: \<^verbatim>\<open>print\<close> never fails; strings are ASCII; a frame rate is a
  number that is passed on and never computed with; the statements run at import time
  (environment variables, warning filters) are not modelled; the window of the GUI is two
  opaque calls.
\<close>

subsection \<open>Exceptions, messages, events\<close>

text \<open>
  \<open>SystemExit\<close> (raised by \<^verbatim>\<open>quit()\<close> and by argparse) and \<open>KeyboardInterrupt\<close> are
  not subclasses of \<^verbatim>\<open>Exception\<close>; the others are. The string is \<^verbatim>\<open>str(e)\<close>.
\<close>

datatype exn =
    ValueError string
  | IndexError string
  | OSError string
  | OtherException string
  | SystemExit
  | KeyboardInterrupt

fun is_Exception :: "exn \<Rightarrow> bool" where
  "is_Exception SystemExit = False"
| "is_Exception KeyboardInterrupt = False"
| "is_Exception _ = True"

fun is_ValueError :: "exn \<Rightarrow> bool" where
  "is_ValueError (ValueError _) = True"
| "is_ValueError _ = False"

text \<open>
  Printed text. A literal is kept as it is; an f-string keeps the values it formats
  (the model does not format floats or exceptions).
\<close>

datatype message =
    Lit string
  | Creating_video_with_fps real
  | Warning_exceeds_hard_limit int int
  | Warning_could_not_set_limit exn
  | Error_copying_file exn
  | UI_initialization_failed exn

type_synonym path = "string option"

text \<open>Python's truth value of a path that is \<^verbatim>\<open>None\<close> or a string.\<close>

fun truthy :: "path \<Rightarrow> bool" where
  "truthy None = False"
| "truthy (Some p) = (p \<noteq> [])"

text \<open>
  One event per call that leaves the file. \<open>Status scope m\<close> is the line
  \<^verbatim>\<open>print(f'[{scope}] {message}')\<close> of \<^verbatim>\<open>update_status\<close>; \<open>CreateVideo p None\<close> is
  the call \<^verbatim>\<open>create_video(p)\<close> that leaves the fps parameter to its default.
\<close>

datatype event =
    Print message
  | Status string message
  | UiUpdateStatus message
  | SignalSIGINT
  | NormalizeOutputPath path path path
  | GetAvailableProviders
  | ListPhysicalDevices
  | SetMemoryGrowth string
  | SetProcessWorkingSetSize int int int
  | GetRlimit
  | SetRlimit int int
  | Which string
  | CudaIsAvailable
  | EmptyCache
  | GetFrameProcessorsModules "string list"
  | PreCheck string
  | PreStart string
  | ProcessImage string path path path
  | ProcessVideo string path "string list"
  | HasImageExtension path
  | IsImage path
  | IsVideo path
  | PredictImage path
  | PredictVideo path
  | Copy2 path path
  | CreateTemp path
  | ExtractFrames path
  | GetTempFramePaths path
  | DetectFps path
  | CreateVideo path "real option"
  | RestoreAudio path path
  | MoveTemp path path
  | CleanTemp path
  | UiInit
  | Mainloop

subsection \<open>The settings object and the environment\<close>

record state =
  source_path :: path
  target_path :: path
  output_path :: path
  frame_processors :: "string list"
  headless :: bool
  keep_fps :: bool
  keep_audio :: bool
  keep_frames :: bool
  many_faces :: bool
  video_encoder :: string
  video_quality :: int
  max_memory :: "int option"
  execution_providers :: "string list"
  execution_threads :: int
  fp_ui :: "(string \<times> bool) list"
  nsfw :: bool
  trace :: "event list"

text \<open>
  The collaborators, grouped by the type of what they return. Each answer depends on
  the call and on the trace before it.
\<close>

record env =
  platform_system :: string
  version_info :: "nat \<times> nat"
  ui_status_label :: "event list \<Rightarrow> bool"
  ret_none :: "event list \<Rightarrow> event \<Rightarrow> exn + unit"
  ret_bool :: "event list \<Rightarrow> event \<Rightarrow> exn + bool"
  ret_float :: "event list \<Rightarrow> event \<Rightarrow> exn + real"
  ret_str :: "event list \<Rightarrow> event \<Rightarrow> exn + string option"
  ret_strs :: "event list \<Rightarrow> event \<Rightarrow> exn + string list"
  ret_rlimit :: "event list \<Rightarrow> event \<Rightarrow> exn + int \<times> int"

subsection \<open>Computations that may raise\<close>

datatype 'a result = Return 'a | Raise exn

type_synonym 'a m = "state \<Rightarrow> 'a result \<times> state"

definition py_return :: "'a \<Rightarrow> 'a m" where
  "py_return x s = (Return x, s)"

definition py_raise :: "exn \<Rightarrow> 'a m" where
  "py_raise e s = (Raise e, s)"

definition bnd :: "'a m \<Rightarrow> ('a \<Rightarrow> 'b m) \<Rightarrow> 'b m" where
  "bnd f k s = (case f s of (Return x, s') \<Rightarrow> k x s' | (Raise e, s') \<Rightarrow> (Raise e, s'))"

definition sq :: "unit m \<Rightarrow> 'b m \<Rightarrow> 'b m" where
  "sq f g = bnd f (\<lambda>_. g)"

text \<open>\<^verbatim>\<open>try: body except C as e: handler(e)\<close>, where \<open>catches\<close> tells the class \<open>C\<close>.\<close>

definition try_except :: "'a m \<Rightarrow> (exn \<Rightarrow> bool) \<Rightarrow> (exn \<Rightarrow> 'a m) \<Rightarrow> 'a m" where
  "try_except body catches handler s =
     (case body s of
        (Return x, s') \<Rightarrow> (Return x, s')
      | (Raise e, s') \<Rightarrow> if catches e then handler e s' else (Raise e, s'))"

text \<open>A computation that reads the settings as they are when it starts.\<close>

definition with_globals :: "(state \<Rightarrow> 'a m) \<Rightarrow> 'a m" where
  "with_globals f s = f s s"

text \<open>A \<^verbatim>\<open>print\<close>: recorded, never raising.\<close>

definition emit :: "event \<Rightarrow> unit m" where
  "emit ev s = (Return (), s\<lparr>trace := trace s @ [ev]\<rparr>)"

text \<open>A call to a collaborator: recorded, answered by the environment.\<close>

definition ext :: "(event list \<Rightarrow> event \<Rightarrow> exn + 'a) \<Rightarrow> event \<Rightarrow> 'a m" where
  "ext answer ev s =
     ((case answer (trace s) ev of Inl e \<Rightarrow> Raise e | Inr a \<Rightarrow> Return a),
      s\<lparr>trace := trace s @ [ev]\<rparr>)"

subsection \<open>Status, cleanup, reconstruction\<close>

definition update_status :: "env \<Rightarrow> message \<Rightarrow> string \<Rightarrow> unit m" where
  "update_status env msg scope =
     sq (emit (Status scope msg))
        (with_globals
           (\<lambda>s. if \<not> headless s \<and> ui_status_label env (trace s)
                 then ext (ret_none env) (UiUpdateStatus msg)
                 else py_return ()))"

definition core_scope :: string where
  "core_scope = ''DLC.CORE''"

definition release_resources :: "env \<Rightarrow> unit m" where
  "release_resources env =
     with_globals
       (\<lambda>s. if ''cuda'' \<in> set (execution_providers s)
             then ext (ret_none env) EmptyCache
             else py_return ())"

definition handle_video_fps :: "env \<Rightarrow> unit m" where
  "handle_video_fps env =
     with_globals
       (\<lambda>s. if keep_fps s
             then sq (update_status env (Lit ''Detecting fps...'') core_scope)
                    (bnd (ext (ret_float env) (DetectFps (target_path s)))
                       (\<lambda>fps. sq (update_status env (Creating_video_with_fps fps) core_scope)
                                  (ext (ret_none env) (CreateVideo (target_path s) (Some fps)))))
             else sq (update_status env (Lit ''Creating video with 30.0 fps...'') core_scope)
                    (ext (ret_none env) (CreateVideo (target_path s) None)))"

definition handle_video_audio :: "env \<Rightarrow> unit m" where
  "handle_video_audio env =
     with_globals
       (\<lambda>s. if keep_audio s
             then sq (if keep_fps s
                      then update_status env (Lit ''Restoring audio...'') core_scope
                      else update_status env
                             (Lit ''Restoring audio might cause issues as fps are not kept...'')
                             core_scope)
                    (ext (ret_none env) (RestoreAudio (target_path s) (output_path s)))
             else ext (ret_none env) (MoveTemp (target_path s) (output_path s)))"

text \<open>\<^verbatim>\<open>quit()\<close> raises \<open>SystemExit\<close>.\<close>

definition destroy :: "env \<Rightarrow> bool \<Rightarrow> unit m" where
  "destroy env to_quit =
     with_globals
       (\<lambda>s. sq (if truthy (target_path s)
                  then ext (ret_none env) (CleanTemp (target_path s))
                  else py_return ())
                 (if to_quit then py_raise SystemExit else py_return ()))"

text \<open>
  Modelled from the spec: the default of the fps parameter of \<^verbatim>\<open>create_video\<close>, which
  is defined in modules/utilities.py, outside the sources at hand. The spec gives the
  fixed default rate as 30.0, and so does the status line printed before the call.
\<close>

definition create_video_default_fps :: real where
  "create_video_default_fps = 30"

fun effective_fps :: "real option \<Rightarrow> real" where
  "effective_fps None = create_video_default_fps"
| "effective_fps (Some fps) = fps"

subsection \<open>Execution providers\<close>

text \<open>
  Provider names are ASCII. \<^verbatim>\<open>str.lower\<close> maps A..Z to a..z and
  \<^verbatim>\<open>str.replace(old, '')\<close> deletes the occurrences of \<open>old\<close>, found from the left and
  not overlapping; with an empty \<open>old\<close> it returns the string as it is.
\<close>

definition lower_char :: "char \<Rightarrow> char" where
  "lower_char c =
     (case map_of (zip ''ABCDEFGHIJKLMNOPQRSTUVWXYZ'' ''abcdefghijklmnopqrstuvwxyz'') c of
        None \<Rightarrow> c
      | Some l \<Rightarrow> l)"

definition lower :: "string \<Rightarrow> string" where
  "lower s = map lower_char s"

function replace_by_empty :: "string \<Rightarrow> string \<Rightarrow> string" where
  "replace_by_empty old [] = []"
| "replace_by_empty old (c # cs) =
     (if old \<noteq> [] \<and> take (length old) (c # cs) = old
      then replace_by_empty old (drop (length old) (c # cs))
      else c # replace_by_empty old cs)"
  by pat_completeness auto
termination
  by (relation "measure (\<lambda>(old, s). length s)") (auto simp: neq_Nil_conv)

definition encode_provider :: "string \<Rightarrow> string" where
  "encode_provider provider = lower (replace_by_empty ''ExecutionProvider'' provider)"

definition encode_execution_providers :: "string list \<Rightarrow> string list" where
  "encode_execution_providers providers = map encode_provider providers"

text \<open>\<^verbatim>\<open>list.index\<close> raises ValueError on a missing element; indexing past the end raises IndexError.\<close>

fun py_index :: "'a list \<Rightarrow> 'a \<Rightarrow> exn + nat" where
  "py_index [] x = Inl (ValueError ''x is not in list'')"
| "py_index (y # ys) x =
     (if y = x then Inr 0
      else case py_index ys x of Inl e \<Rightarrow> Inl e | Inr i \<Rightarrow> Inr (Suc i))"

definition py_getitem :: "'a list \<Rightarrow> nat \<Rightarrow> exn + 'a" where
  "py_getitem xs i =
     (if i < length xs then Inr (xs ! i) else Inl (IndexError ''list index out of range''))"

text \<open>
  The list comprehension of \<^verbatim>\<open>decode_execution_providers\<close>: for each requested name that
  is among the encoded names, the available provider at the index of its first occurrence.
\<close>

fun selected_providers :: "string list \<Rightarrow> string list \<Rightarrow> string list \<Rightarrow> exn + string list" where
  "selected_providers available encoded [] = Inr []"
| "selected_providers available encoded (req # reqs) =
     (if req \<in> set encoded
      then (case py_index encoded req of
              Inl e \<Rightarrow> Inl e
            | Inr i \<Rightarrow>
               (case py_getitem available i of
                  Inl e \<Rightarrow> Inl e
                | Inr p \<Rightarrow>
                   (case selected_providers available encoded reqs of
                      Inl e \<Rightarrow> Inl e
                    | Inr ps \<Rightarrow> Inr (p # ps))))
      else selected_providers available encoded reqs)"

text \<open>
  \<^verbatim>\<open>decode_execution_providers\<close> after the call that lists the host's providers:
  \<open>available_providers\<close> is what \<^verbatim>\<open>onnxruntime.get_available_providers()\<close> returned.
\<close>

definition decode_providers :: "string list \<Rightarrow> string list \<Rightarrow> exn + string list" where
  "decode_providers available_providers requested =
     (case selected_providers available_providers
             (encode_execution_providers available_providers) requested of
        Inl e \<Rightarrow> Inl e
      | Inr selected \<Rightarrow> Inr (if selected \<noteq> [] then selected else [''CPUExecutionProvider'']))"

definition lift :: "exn + 'a \<Rightarrow> 'a m" where
  "lift r s = ((case r of Inl e \<Rightarrow> Raise e | Inr a \<Rightarrow> Return a), s)"

definition decode_execution_providers :: "env \<Rightarrow> string list \<Rightarrow> string list m" where
  "decode_execution_providers env requested =
     bnd (ext (ret_strs env) GetAvailableProviders)
       (\<lambda>available_providers. lift (decode_providers available_providers requested))"

definition suggest_max_memory :: "env \<Rightarrow> int" where
  "suggest_max_memory env = (if lower (platform_system env) = ''darwin'' then 4 else 16)"

definition suggest_execution_providers :: "env \<Rightarrow> string list m" where
  "suggest_execution_providers env =
     bnd (ext (ret_strs env) GetAvailableProviders)
       (\<lambda>available_providers. py_return (encode_execution_providers available_providers))"

definition suggest_execution_threads :: "state \<Rightarrow> int" where
  "suggest_execution_threads s =
     (if ''dml'' \<in> set (execution_providers s) then 1
      else if ''rocm'' \<in> set (execution_providers s) then 1
      else 8)"

subsection \<open>Resource limits and pre-checks\<close>

fun set_memory_growth_all :: "env \<Rightarrow> string list \<Rightarrow> unit m" where
  "set_memory_growth_all env [] = py_return ()"
| "set_memory_growth_all env (gpu # gpus) =
     sq (ext (ret_none env) (SetMemoryGrowth gpu)) (set_memory_growth_all env gpus)"

text \<open>Lines 161 to 164, under the comment "Prevent TensorFlow memory leak".\<close>

definition prevent_tensorflow_memory_leak :: "env \<Rightarrow> unit m" where
  "prevent_tensorflow_memory_leak env =
     bnd (ext (ret_strs env) ListPhysicalDevices) (set_memory_growth_all env)"

text \<open>
  Lines 166 to 184, under the comment "Limit memory usage". On Darwin the byte count is
  computed and dropped. On Windows it is passed to \<^verbatim>\<open>SetProcessWorkingSetSize\<close> (the
  event keeps the Python integers given to \<^verbatim>\<open>c_size_t\<close>). Elsewhere the data segment
  limit is read and set, and a ValueError of either call is caught.
\<close>

definition limit_memory_usage :: "env \<Rightarrow> unit m" where
  "limit_memory_usage env =
     with_globals (\<lambda>s.
        case max_memory s of
          None \<Rightarrow> py_return ()
        | Some mm \<Rightarrow>
           if mm = 0 then py_return ()
           else
             (let memory = mm * 1024 ^ 3 in
              if lower (platform_system env) = ''darwin'' then py_return ()
              else if lower (platform_system env) = ''windows''
              then ext (ret_none env) (SetProcessWorkingSetSize (- 1) memory memory)
              else
                try_except
                  (bnd (ext (ret_rlimit env) GetRlimit)
                     (\<lambda>(soft, hard).
                        if memory > hard
                        then sq (emit (Print (Warning_exceeds_hard_limit memory hard)))
                               (ext (ret_none env) (SetRlimit hard hard))
                        else ext (ret_none env) (SetRlimit memory memory)))
                  is_ValueError
                  (\<lambda>e. emit (Print (Warning_could_not_set_limit e)))))"

definition limit_resources :: "env \<Rightarrow> unit m" where
  "limit_resources env = sq (prevent_tensorflow_memory_leak env) (limit_memory_usage env)"

definition pre_check :: "env \<Rightarrow> bool m" where
  "pre_check env =
     with_globals (\<lambda>s.
      if fst (version_info env) < 3 \<or> (fst (version_info env) = 3 \<and> snd (version_info env) < 9)
      then sq (update_status env
                 (Lit ''Python version is not supported - please upgrade to 3.9 or higher.'')
                 core_scope)
             (py_return False)
      else
        bnd (ext (ret_str env) (Which ''ffmpeg''))
          (\<lambda>ffmpeg.
             if \<not> truthy ffmpeg
             then sq (update_status env (Lit ''ffmpeg is not installed.'') core_scope)
                    (py_return False)
             else
               bnd (if ''cuda'' \<in> set (execution_providers s)
                    then ext (ret_bool env) CudaIsAvailable
                    else py_return True)
                 (\<lambda>cuda_ok.
                    if \<not> cuda_ok
                    then sq (update_status env
                               (Lit ''CUDA is not available. Please check your GPU or CUDA installation.'')
                               core_scope)
                           (py_return False)
                    else py_return True)))"

subsection \<open>The image path and the video path\<close>

text \<open>
  A frame processor module is known by its \<^verbatim>\<open>NAME\<close>. The loops below are the
  \<^verbatim>\<open>for frame_processor in ...\<close> loops of the source.
\<close>

fun process_image_loop :: "env \<Rightarrow> path \<Rightarrow> path \<Rightarrow> string list \<Rightarrow> unit m" where
  "process_image_loop env src out [] = py_return ()"
| "process_image_loop env src out (fp # fps) =
     sq (update_status env (Lit ''Processing...'') fp)
       (sq (ext (ret_none env) (ProcessImage fp src out out))
          (sq (release_resources env) (process_image_loop env src out fps)))"

fun process_video_loop :: "env \<Rightarrow> path \<Rightarrow> string list \<Rightarrow> string list \<Rightarrow> unit m" where
  "process_video_loop env src temp_frame_paths [] = py_return ()"
| "process_video_loop env src temp_frame_paths (fp # fps) =
     sq (update_status env (Lit ''Processing...'') fp)
       (sq (ext (ret_none env) (ProcessVideo fp src temp_frame_paths))
          (sq (release_resources env) (process_video_loop env src temp_frame_paths fps)))"

text \<open>The last four lines of each path: the check of the media type and the final status.\<close>

definition report_image :: "env \<Rightarrow> unit m" where
  "report_image env =
     with_globals (\<lambda>s.
     bnd (ext (ret_bool env) (IsImage (target_path s)))
       (\<lambda>ok. if ok then update_status env (Lit ''Processing to image succeeded!'') core_scope
              else update_status env (Lit ''Processing to image failed!'') core_scope))"

definition report_video :: "env \<Rightarrow> unit m" where
  "report_video env =
     with_globals (\<lambda>s.
     bnd (ext (ret_bool env) (IsVideo (target_path s)))
       (\<lambda>ok. if ok then update_status env (Lit ''Processing to video succeeded!'') core_scope
              else update_status env (Lit ''Processing to video failed!'') core_scope))"

text \<open>Lines 232 to 245: what \<^verbatim>\<open>process_image_to_image\<close> does when it is not cut short.\<close>

definition image_to_image_body :: "env \<Rightarrow> unit m" where
  "image_to_image_body env =
     with_globals (\<lambda>s.
     sq (try_except (ext (ret_none env) (Copy2 (target_path s) (output_path s)))
           is_Exception (\<lambda>e. emit (Print (Error_copying_file e))))
       (sq (bnd (ext (ret_strs env) (GetFrameProcessorsModules (frame_processors s)))
              (process_image_loop env (source_path s) (output_path s)))
          (report_image env)))"

definition process_image_to_image :: "env \<Rightarrow> unit m" where
  "process_image_to_image env =
     with_globals (\<lambda>s.
      if nsfw s
      then bnd (ext (ret_bool env) (PredictImage (target_path s)))
             (\<lambda>flagged.
                if flagged
                then sq (destroy env False)
                       (update_status env (Lit ''Processing to image ignored!'') core_scope)
                else image_to_image_body env)
      else image_to_image_body env)"

text \<open>Lines 256 to 273: what \<^verbatim>\<open>process_image_to_video\<close> does when it is not cut short.\<close>

definition image_to_video_body :: "env \<Rightarrow> unit m" where
  "image_to_video_body env =
     with_globals (\<lambda>s.
     sq (update_status env (Lit ''Creating temporary resources...'') core_scope)
       (sq (ext (ret_none env) (CreateTemp (target_path s)))
          (sq (update_status env (Lit ''Extracting frames...'') core_scope)
             (sq (ext (ret_none env) (ExtractFrames (target_path s)))
                (bnd (ext (ret_strs env) (GetTempFramePaths (target_path s)))
                   (\<lambda>temp_frame_paths.
                      sq (bnd (ext (ret_strs env) (GetFrameProcessorsModules (frame_processors s)))
                            (process_video_loop env (source_path s) temp_frame_paths))
                        (sq (handle_video_fps env)
                           (sq (handle_video_audio env)
                              (sq (ext (ret_none env) (CleanTemp (target_path s)))
                                 (report_video env))))))))))"

definition process_image_to_video :: "env \<Rightarrow> unit m" where
  "process_image_to_video env =
     with_globals (\<lambda>s.
      if nsfw s
      then bnd (ext (ret_bool env) (PredictVideo (target_path s)))
             (\<lambda>flagged.
                if flagged
                then sq (destroy env False)
                       (update_status env (Lit ''Processing to video ignored!'') core_scope)
                else image_to_video_body env)
      else image_to_video_body env)"

text \<open>
  The readiness loop of \<^verbatim>\<open>start\<close>: \<open>False\<close> when a \<^verbatim>\<open>pre_start()\<close> was false and the
  loop hit its \<^verbatim>\<open>return\<close>, \<open>True\<close> when the loop ran to its end.
\<close>

fun pre_start_loop :: "env \<Rightarrow> string list \<Rightarrow> bool m" where
  "pre_start_loop env [] = py_return True"
| "pre_start_loop env (fp # fps) =
     bnd (ext (ret_bool env) (PreStart fp))
       (\<lambda>ready. if \<not> ready then py_return False else pre_start_loop env fps)"

definition start :: "env \<Rightarrow> unit m" where
  "start env =
     with_globals (\<lambda>s.
     bnd (bnd (ext (ret_strs env) (GetFrameProcessorsModules (frame_processors s)))
            (pre_start_loop env))
       (\<lambda>ready.
          if \<not> ready then py_return ()
          else bnd (ext (ret_bool env) (HasImageExtension (target_path s)))
                 (\<lambda>image. if image then process_image_to_image env
                           else process_image_to_video env)))"

subsection \<open>The command line\<close>

text \<open>
  What argparse found on the command line: the value of each option that was given, and
  for each \<^verbatim>\<open>store_true\<close> flag whether it was given. The defaults, the \<^verbatim>\<open>store_true\<close>
  action and the \<^verbatim>\<open>choices\<close> are those of the \<^verbatim>\<open>add_argument\<close> calls; a rejected
  command line and \<^verbatim>\<open>--version\<close> end in \<open>SystemExit\<close>.
\<close>

record cli =
  c_source :: "string option"
  c_target :: "string option"
  c_output :: "string option"
  c_frame_processor :: "string list option"
  c_keep_fps :: bool
  c_keep_audio :: bool
  c_keep_frames :: bool
  c_many_faces :: bool
  c_video_encoder :: "string option"
  c_video_quality :: "int option"
  c_max_memory :: "int option"
  c_execution_provider :: "string list option"
  c_execution_threads :: "int option"
  c_version :: bool
  c_face :: "string option"
  c_cpu_cores :: "int option"
  c_gpu_vendor :: "string option"
  c_gpu_threads :: "int option"

record namespace =
  a_source_path :: path
  a_target_path :: path
  a_output_path :: path
  a_frame_processor :: "string list"
  a_keep_fps :: bool
  a_keep_audio :: bool
  a_keep_frames :: bool
  a_many_faces :: bool
  a_video_encoder :: string
  a_video_quality :: int
  a_max_memory :: int
  a_execution_provider :: "string list"
  a_execution_threads :: int
  a_source_path_deprecated :: path
  a_cpu_cores_deprecated :: "int option"
  a_gpu_vendor_deprecated :: "string option"
  a_gpu_threads_deprecated :: "int option"

definition store :: "'a \<Rightarrow> 'a option \<Rightarrow> 'a" where
  "store dflt given = (case given of None \<Rightarrow> dflt | Some v \<Rightarrow> v)"

definition store_true :: "bool \<Rightarrow> bool \<Rightarrow> bool" where
  "store_true dflt given = (if given then True else dflt)"

text \<open>A value given for an option with \<^verbatim>\<open>choices\<close> must be one of them.\<close>

definition chosen :: "'a list \<Rightarrow> 'a option \<Rightarrow> bool" where
  "chosen choices given = (case given of None \<Rightarrow> True | Some v \<Rightarrow> v \<in> set choices)"

definition chosen_plus :: "'a list \<Rightarrow> 'a list option \<Rightarrow> bool" where
  "chosen_plus choices given =
     (case given of None \<Rightarrow> True | Some vs \<Rightarrow> vs \<noteq> [] \<and> list_all (\<lambda>v. v \<in> set choices) vs)"

definition program_parse_args :: "int \<Rightarrow> string list \<Rightarrow> int \<Rightarrow> cli \<Rightarrow> exn + namespace" where
  "program_parse_args max_memory_default provider_choices threads_default c =
     (if c_version c then Inl SystemExit
      else if \<not> chosen_plus [''face_swapper'', ''face_enhancer''] (c_frame_processor c)
      then Inl SystemExit
      else if \<not> chosen [''libx264'', ''libx265'', ''libvpx-vp9''] (c_video_encoder c)
      then Inl SystemExit
      else if \<not> chosen (map int [0..<52]) (c_video_quality c) then Inl SystemExit
      else if \<not> chosen_plus provider_choices (c_execution_provider c) then Inl SystemExit
      else Inr \<lparr>
        a_source_path = c_source c,
        a_target_path = c_target c,
        a_output_path = c_output c,
        a_frame_processor = store [''face_swapper''] (c_frame_processor c),
        a_keep_fps = store_true False (c_keep_fps c),
        a_keep_audio = store_true True (c_keep_audio c),
        a_keep_frames = store_true False (c_keep_frames c),
        a_many_faces = store_true False (c_many_faces c),
        a_video_encoder = store ''libx264'' (c_video_encoder c),
        a_video_quality = store 18 (c_video_quality c),
        a_max_memory = store max_memory_default (c_max_memory c),
        a_execution_provider = store [''cpu''] (c_execution_provider c),
        a_execution_threads = store threads_default (c_execution_threads c),
        a_source_path_deprecated = c_face c,
        a_cpu_cores_deprecated = c_cpu_cores c,
        a_gpu_vendor_deprecated = c_gpu_vendor c,
        a_gpu_threads_deprecated = c_gpu_threads c \<rparr>)"

definition modify :: "(state \<Rightarrow> state) \<Rightarrow> unit m" where
  "modify f s = (Return (), f s)"

definition py_when :: "bool \<Rightarrow> unit m \<Rightarrow> unit m" where
  "py_when c f = (if c then f else py_return ())"

text \<open>\<^verbatim>\<open>if v: f(v)\<close> for an integer that may be \<^verbatim>\<open>None\<close>: true when it is a non-zero integer.\<close>

definition py_when_int :: "int option \<Rightarrow> (int \<Rightarrow> unit m) \<Rightarrow> unit m" where
  "py_when_int v f =
     (case v of None \<Rightarrow> py_return () | Some n \<Rightarrow> if n \<noteq> 0 then f n else py_return ())"

text \<open>The deprecation warnings are printed between the escape codes \<^verbatim>\<open>\033[33m\<close> and \<^verbatim>\<open>\033[0m\<close>.\<close>

definition yellow :: "string \<Rightarrow> message" where
  "yellow text = Lit (CHR 0x1B # ''[33m'' @ text @ CHR 0x1B # ''[0m'')"

definition set_execution_providers :: "env \<Rightarrow> string list \<Rightarrow> unit m" where
  "set_execution_providers env requested =
     bnd (decode_execution_providers env requested)
       (\<lambda>providers. modify (\<lambda>s. s\<lparr>execution_providers := providers\<rparr>))"

definition handle_deprecated_args :: "env \<Rightarrow> namespace \<Rightarrow> unit m" where
  "handle_deprecated_args env args =
     sq (py_when (truthy (a_source_path_deprecated args))
           (sq (emit (Print (yellow ''Argument -f and --face are deprecated. Use -s and --source instead.'')))
              (sq (modify (\<lambda>s. s\<lparr>source_path := a_source_path_deprecated args\<rparr>))
                 (with_globals
                    (\<lambda>s. bnd (ext (ret_str env)
                                 (NormalizeOutputPath (a_source_path_deprecated args)
                                    (target_path s) (a_output_path args)))
                            (\<lambda>p. modify (\<lambda>s. s\<lparr>output_path := p\<rparr>)))))))
    (sq (py_when_int (a_cpu_cores_deprecated args)
           (\<lambda>n. sq (emit (Print (yellow ''Argument --cpu-cores is deprecated. Use --execution-threads instead.'')))
                  (modify (\<lambda>s. s\<lparr>execution_threads := n\<rparr>))))
    (sq (py_when (a_gpu_vendor_deprecated args = Some ''apple'')
           (sq (emit (Print (yellow ''Argument --gpu-vendor apple is deprecated. Use --execution-provider coreml instead.'')))
              (set_execution_providers env [''coreml''])))
    (sq (py_when (a_gpu_vendor_deprecated args = Some ''nvidia'')
           (sq (emit (Print (yellow ''Argument --gpu-vendor nvidia is deprecated. Use --execution-provider cuda instead.'')))
              (set_execution_providers env [''cuda''])))
    (sq (py_when (a_gpu_vendor_deprecated args = Some ''amd'')
           (sq (emit (Print (yellow ''Argument --gpu-vendor amd is deprecated. Use --execution-provider rocm instead.'')))
              (set_execution_providers env [''rocm''])))
        (py_when_int (a_gpu_threads_deprecated args)
           (\<lambda>n. sq (emit (Print (yellow ''Argument --gpu-threads is deprecated. Use --execution-threads instead.'')))
                  (modify (\<lambda>s. s\<lparr>execution_threads := n\<rparr>))))))))"

text \<open>
  Lines 80 to 102: the settings are written from the parsed arguments. The setting
  \<^verbatim>\<open>headless\<close> is only ever tested for truth, so the model keeps the truth value of
  \<^verbatim>\<open>source_path or target_path or output_path\<close>.
\<close>

definition store_args :: "env \<Rightarrow> namespace \<Rightarrow> unit m" where
  "store_args env args =
     sq (modify (\<lambda>s. s\<lparr>source_path := a_source_path args, target_path := a_target_path args\<rparr>))
    (sq (with_globals
           (\<lambda>s. bnd (ext (ret_str env)
                        (NormalizeOutputPath (source_path s) (target_path s) (a_output_path args)))
                   (\<lambda>p. modify (\<lambda>s. s\<lparr>output_path := p\<rparr>))))
    (sq (modify (\<lambda>s. s\<lparr>
              frame_processors := a_frame_processor args,
              headless := (truthy (a_source_path args) \<or> truthy (a_target_path args)
                           \<or> truthy (a_output_path args)),
              keep_fps := a_keep_fps args,
              keep_audio := a_keep_audio args,
              keep_frames := a_keep_frames args,
              many_faces := a_many_faces args,
              video_encoder := a_video_encoder args,
              video_quality := a_video_quality args,
              max_memory := Some (a_max_memory args)\<rparr>))
    (sq (set_execution_providers env (a_execution_provider args))
    (sq (modify (\<lambda>s. s\<lparr>
              execution_threads := a_execution_threads args,
              fp_ui := AList.update ''face_enhancer''
                         (''face_enhancer'' \<in> set (a_frame_processor args)) (fp_ui s),
              nsfw := False\<rparr>))
        (handle_deprecated_args env args)))))"

text \<open>
  The defaults of \<^verbatim>\<open>--max-memory\<close>, \<^verbatim>\<open>--execution-provider\<close> (its choices) and
  \<^verbatim>\<open>--execution-threads\<close> are computed when the arguments are declared, before parsing.
\<close>

definition parse_args :: "env \<Rightarrow> cli \<Rightarrow> unit m" where
  "parse_args env c =
     sq (ext (ret_none env) SignalSIGINT)
       (with_globals
          (\<lambda>s. bnd (suggest_execution_providers env)
                  (\<lambda>provider_choices.
                     bnd (lift (program_parse_args (suggest_max_memory env) provider_choices
                                  (suggest_execution_threads s) c))
                       (store_args env))))"

text \<open>The handler that \<^verbatim>\<open>parse_args\<close> installs for SIGINT: \<^verbatim>\<open>destroy()\<close>.\<close>

definition sigint_handler :: "env \<Rightarrow> unit m" where
  "sigint_handler env = destroy env True"

subsection \<open>The entry point\<close>

fun pre_check_loop :: "env \<Rightarrow> string list \<Rightarrow> bool m" where
  "pre_check_loop env [] = py_return True"
| "pre_check_loop env (fp # fps) =
     bnd (ext (ret_bool env) (PreCheck fp))
       (\<lambda>ok. if \<not> ok then py_return False else pre_check_loop env fps)"

text \<open>
  The body of the \<^verbatim>\<open>try\<close>. The GUI is two calls, \<^verbatim>\<open>ui.init\<close> and \<^verbatim>\<open>mainloop\<close>; what
  the window does with the callbacks it is given is not part of the model.
\<close>

definition run_body :: "env \<Rightarrow> cli \<Rightarrow> unit m" where
  "run_body env c =
     sq (parse_args env c)
       (bnd (pre_check env)
          (\<lambda>ok.
             if \<not> ok then py_return ()
             else
               bnd (with_globals
                      (\<lambda>s. bnd (ext (ret_strs env)
                                   (GetFrameProcessorsModules (frame_processors s)))
                              (pre_check_loop env)))
                 (\<lambda>ok.
                    if \<not> ok then py_return ()
                    else sq (limit_resources env)
                           (with_globals
                              (\<lambda>s. if headless s then start env
                                    else sq (ext (ret_none env) UiInit)
                                           (ext (ret_none env) Mainloop))))))"

definition run_handler :: "env \<Rightarrow> exn \<Rightarrow> unit m" where
  "run_handler env e =
     sq (emit (Print (UI_initialization_failed e)))
       (sq (update_status env (UI_initialization_failed e) core_scope)
          (destroy env True))"

definition run :: "env \<Rightarrow> cli \<Rightarrow> unit m" where
  "run env c = try_except (run_body env c) is_Exception (run_handler env)"

section \<open>Notions used by the properties\<close>

text \<open>
  The status sink does not fail: the run is headless, where \<^verbatim>\<open>update_status\<close> only
  prints, or \<^verbatim>\<open>ui.update_status\<close> never raises.
\<close>

definition status_ok :: "env \<Rightarrow> state \<Rightarrow> bool" where
  "status_ok env s = (headless s \<or> (\<forall>tr msg. ret_none env tr (UiUpdateStatus msg) = Inr ()))"

text \<open>What one \<^verbatim>\<open>update_status\<close> adds to the trace when the sink does not fail.\<close>

definition status_events :: "env \<Rightarrow> state \<Rightarrow> string \<Rightarrow> message \<Rightarrow> event list" where
  "status_events env s scope msg =
     Status scope msg #
     (if \<not> headless s \<and> ui_status_label env (trace s @ [Status scope msg])
      then [UiUpdateStatus msg] else [])"

text \<open>The events added between two states.\<close>

definition new_events :: "state \<Rightarrow> state \<Rightarrow> event list" where
  "new_events s s' = drop (length (trace s)) (trace s')"

text \<open>The calls of a trace, its status lines left out.\<close>

fun is_status :: "event \<Rightarrow> bool" where
  "is_status (Status scope msg) = True"
| "is_status (UiUpdateStatus msg) = True"
| "is_status _ = False"

definition calls :: "event list \<Rightarrow> event list" where
  "calls evs = filter (\<lambda>ev. \<not> is_status ev) evs"

text \<open>
  A host for the examples: Linux, Python 3.10, no GUI label, every collaborator returns,
  fps detection gives 25, the frame processor modules are the names asked for.
\<close>

definition quiet_env :: env where
  "quiet_env = \<lparr>
     platform_system = ''Linux'',
     version_info = (3, 10),
     ui_status_label = (\<lambda>tr. False),
     ret_none = (\<lambda>tr ev. Inr ()),
     ret_bool = (\<lambda>tr ev. Inr True),
     ret_float = (\<lambda>tr ev. Inr 25),
     ret_str = (\<lambda>tr ev. Inr (Some ''/usr/bin/ffmpeg'')),
     ret_strs = (\<lambda>tr ev. case ev of
                    GetFrameProcessorsModules names \<Rightarrow> Inr names
                  | GetAvailableProviders \<Rightarrow> Inr [''CUDAExecutionProvider'', ''CPUExecutionProvider'']
                  | GetTempFramePaths p \<Rightarrow> Inr [''0001.png'', ''0002.png'', ''0003.png'']
                  | _ \<Rightarrow> Inr []),
     ret_rlimit = (\<lambda>tr ev. Inr (8589934592, 8589934592)) \<rparr>"

text \<open>Settings for the examples: nothing set, and the job of the spec's scenario.\<close>

definition idle_state :: state where
  "idle_state = \<lparr>
     source_path = None, target_path = None, output_path = None,
     frame_processors = [], headless = False,
     keep_fps = False, keep_audio = True, keep_frames = False, many_faces = False,
     video_encoder = ''libx264'', video_quality = 18, max_memory = None,
     execution_providers = [''CPUExecutionProvider''], execution_threads = 8,
     fp_ui = [], nsfw = False, trace = [] \<rparr>"

definition clip_state :: state where
  "clip_state = idle_state\<lparr>
     source_path := Some ''face.png'', target_path := Some ''clip.mp4'',
     output_path := Some ''out.mp4'', frame_processors := [''face_swapper''],
     headless := True \<rparr>"



text \<open>The events of the readiness stage of \<^verbatim>\<open>start\<close>: loading the modules and asking them.\<close>

fun is_readiness :: "event \<Rightarrow> bool" where
  "is_readiness (GetFrameProcessorsModules names) = True"
| "is_readiness (PreStart fp) = True"
| "is_readiness _ = False"

text \<open>A host on which the face enhancer is never ready, and a job that asks for it.\<close>

definition not_ready_env :: env where
  "not_ready_env = quiet_env\<lparr>ret_bool := (\<lambda>tr ev. Inr (ev \<noteq> PreStart ''face_enhancer''))\<rparr>"

definition two_processors_state :: state where
  "two_processors_state = clip_state\<lparr>frame_processors := [''face_swapper'', ''face_enhancer'']\<rparr>"


text \<open>
  A property of the state that a computation keeps, and a property that does not look
  at the trace.
\<close>

definition preserves :: "(state \<Rightarrow> bool) \<Rightarrow> 'a m \<Rightarrow> bool" where
  "preserves P f = (\<forall>s. P s \<longrightarrow> P (snd (f s)))"

definition trace_free :: "(state \<Rightarrow> bool) \<Rightarrow> bool" where
  "trace_free P = (\<forall>s tr. P (s\<lparr>trace := tr\<rparr>) = P s)"





text \<open>
  Hosts for the examples: a Darwin host with a hard limit of 1024 bytes, a Windows host, a
  host with no hard limit (\<^verbatim>\<open>RLIM_INFINITY\<close> reads as \<open>- 1\<close>) whose \<^verbatim>\<open>setrlimit\<close>
  cannot convert an integer below \<open>- 2 ^ 63\<close>, and a host whose \<^verbatim>\<open>setrlimit\<close> refuses
  with a ValueError.
\<close>

definition darwin_env :: env where
  "darwin_env = quiet_env\<lparr>platform_system := ''Darwin'', ret_rlimit := (\<lambda>tr ev. Inr (1024, 1024))\<rparr>"

definition windows_env :: env where
  "windows_env = quiet_env\<lparr>platform_system := ''Windows''\<rparr>"


definition rejecting_env :: env where
  "rejecting_env = quiet_env\<lparr>
     ret_none := (\<lambda>tr ev. case ev of
         SetRlimit soft hard \<Rightarrow> Inl (ValueError ''not allowed to raise maximum limit'')
       | _ \<Rightarrow> Inr ())\<rparr>"

definition memory_state :: "int \<Rightarrow> state" where
  "memory_state gb = idle_state\<lparr>max_memory := Some gb\<rparr>"

text \<open>
  A command line for the examples: source, target and output are given, nothing else.
\<close>

definition job_cli :: cli where
  "job_cli = \<lparr>
     c_source = Some ''face.png'', c_target = Some ''target.png'', c_output = Some ''out.png'',
     c_frame_processor = None,
     c_keep_fps = False, c_keep_audio = False, c_keep_frames = False, c_many_faces = False,
     c_video_encoder = None, c_video_quality = None, c_max_memory = None,
     c_execution_provider = None, c_execution_threads = None, c_version = False,
     c_face = None, c_cpu_cores = None, c_gpu_vendor = None, c_gpu_threads = None \<rparr>"

text \<open>
  A host whose frame processor fails on the image, and a job with the check for unsafe
  content switched on.
\<close>

definition failing_env :: env where
  "failing_env = quiet_env\<lparr>
     ret_none := (\<lambda>tr ev. case ev of
         ProcessImage fp src tgt out \<Rightarrow> Inl (OtherException ''inference failed'')
       | _ \<Rightarrow> Inr ())\<rparr>"

definition flagged_state :: state where
  "flagged_state = clip_state\<lparr>nsfw := True\<rparr>"

section \<open>Properties\<close>

subsection \<open>Basic facts\<close>

lemmas monad_defs = py_return_def py_raise_def bnd_def sq_def try_except_def emit_def
  ext_def lift_def modify_def py_when_def py_when_int_def with_globals_def

lemma status_ok_trace [simp]: "status_ok env (s\<lparr>trace := tr\<rparr>) = status_ok env s"
  by (simp add: status_ok_def)

lemma update_status_ok:
  "status_ok env s \<Longrightarrow>
   update_status env msg scope s =
     (Return (), s\<lparr>trace := trace s @ status_events env s scope msg\<rparr>)"
  by (auto simp: update_status_def monad_defs status_ok_def status_events_def)

lemma calls_status_events [simp]: "calls (status_events env s scope msg) = []"
  by (simp add: calls_def status_events_def)

lemma calls_append [simp]: "calls (xs @ ys) = calls xs @ calls ys"
  by (simp add: calls_def)

lemma calls_Cons [simp]: "calls (ev # evs) = (if is_status ev then calls evs else ev # calls evs)"
  by (simp add: calls_def)

lemma calls_Nil [simp]: "calls [] = []"
  by (simp add: calls_def)

lemma status_events_trace [simp]:
  "headless s \<Longrightarrow> status_events env s scope msg = [Status scope msg]"
  by (simp add: status_events_def)

lemma status_ok_quiet [simp]: "status_ok quiet_env s"
  by (simp add: status_ok_def quiet_env_def)

subsection \<open>Backend resolution\<close>











lemma decode_providers_example:
  "decode_providers [''CUDAExecutionProvider'', ''CPUExecutionProvider''] [''cpu'', ''rocm'', ''cuda'']
     = Inr [''CPUExecutionProvider'', ''CUDAExecutionProvider'']"
  "decode_providers [''CPUExecutionProvider''] [''cuda''] = Inr [''CPUExecutionProvider'']"
  by (simp_all add: decode_providers_def encode_execution_providers_def encode_provider_def
      lower_def lower_char_def py_getitem_def)


subsection \<open>Reconstruction\<close>

text \<open>
  Claim C4. Without keep-fps the only toolkit call of \<^verbatim>\<open>handle_video_fps\<close> is
  \<^verbatim>\<open>create_video\<close> with the fps left to its default of 30.0, and fps detection is not
  called; with keep-fps the fps is detected from the target first and the video is
  created at the detected rate.
\<close>

theorem fps_policy:
  "(\<not> keep_fps s \<and> status_ok env s \<longrightarrow>
      calls (new_events s (snd (handle_video_fps env s))) = [CreateVideo (target_path s) None]
      \<and> effective_fps None = 30)
   \<and> (keep_fps s \<and> status_ok env s
       \<and> ret_float env (trace s @ status_events env s core_scope (Lit ''Detecting fps...''))
            (DetectFps (target_path s)) = Inr fps \<longrightarrow>
      calls (new_events s (snd (handle_video_fps env s))) =
        [DetectFps (target_path s), CreateVideo (target_path s) (Some fps)]
      \<and> effective_fps (Some fps) = fps)"
  by (auto simp: handle_video_fps_def update_status_ok monad_defs new_events_def
      create_video_default_fps_def)

theorem fps_policy_witness:
  "calls (new_events clip_state (snd (handle_video_fps quiet_env clip_state))) =
     [CreateVideo (Some ''clip.mp4'') None]
   \<and> effective_fps None = 30
   \<and> calls (new_events (clip_state\<lparr>keep_fps := True\<rparr>)
        (snd (handle_video_fps quiet_env (clip_state\<lparr>keep_fps := True\<rparr>)))) =
     [DetectFps (Some ''clip.mp4''), CreateVideo (Some ''clip.mp4'') (Some 25)]"
proof -
  have a: "\<not> keep_fps clip_state" "target_path clip_state = Some ''clip.mp4''"
    "keep_fps (clip_state\<lparr>keep_fps := True\<rparr>)"
    "target_path (clip_state\<lparr>keep_fps := True\<rparr>) = Some ''clip.mp4''"
    by (simp_all add: clip_state_def idle_state_def)
  have b: "ret_float quiet_env tr ev = Inr 25" for tr ev
    by (simp add: quiet_env_def)
  from fps_policy [of clip_state quiet_env 0]
    fps_policy [of "clip_state\<lparr>keep_fps := True\<rparr>" quiet_env 25] a b
  show ?thesis by simp
qed

text \<open>
  Claim C5. Without keep-audio \<^verbatim>\<open>handle_video_audio\<close> does one thing, the move of the
  temporary video to the output path, and never calls \<^verbatim>\<open>restore_audio\<close>; with keep-audio
  its only call is \<^verbatim>\<open>restore_audio\<close>, and nothing is moved.
\<close>

theorem audio_policy:
  "(\<not> keep_audio s \<longrightarrow>
      new_events s (snd (handle_video_audio env s)) = [MoveTemp (target_path s) (output_path s)])
   \<and> (keep_audio s \<and> status_ok env s \<longrightarrow>
      calls (new_events s (snd (handle_video_audio env s))) =
        [RestoreAudio (target_path s) (output_path s)])"
  by (auto simp: handle_video_audio_def update_status_ok monad_defs new_events_def)

theorem audio_policy_witness:
  "new_events (clip_state\<lparr>keep_audio := False\<rparr>)
       (snd (handle_video_audio quiet_env (clip_state\<lparr>keep_audio := False\<rparr>)))
     = [MoveTemp (Some ''clip.mp4'') (Some ''out.mp4'')]
   \<and> calls (new_events clip_state (snd (handle_video_audio quiet_env clip_state)))
     = [RestoreAudio (Some ''clip.mp4'') (Some ''out.mp4'')]"
  using audio_policy [of "clip_state\<lparr>keep_audio := False\<rparr>" quiet_env]
    audio_policy [of clip_state quiet_env]
  by (simp add: clip_state_def idle_state_def)

text \<open>
  Claim C6. With keep-audio and without keep-fps, \<^verbatim>\<open>handle_video_audio\<close> prints the
  warning about fps that are not kept and then restores the audio all the same; the only
  exception it can end in is one of \<^verbatim>\<open>restore_audio\<close> itself, and when that call
  returns, so does \<^verbatim>\<open>handle_video_audio\<close>.
\<close>

theorem audio_without_fps_warns_only:
  "keep_audio s \<and> \<not> keep_fps s \<and> status_ok env s \<longrightarrow>
     new_events s (snd (handle_video_audio env s)) =
       status_events env s core_scope
         (Lit ''Restoring audio might cause issues as fps are not kept...'')
       @ [RestoreAudio (target_path s) (output_path s)]
     \<and> fst (handle_video_audio env s) =
       (case ret_none env
               (trace s @ status_events env s core_scope
                  (Lit ''Restoring audio might cause issues as fps are not kept...''))
               (RestoreAudio (target_path s) (output_path s)) of
          Inl e \<Rightarrow> Raise e | Inr u \<Rightarrow> Return ())"
  by (auto simp: handle_video_audio_def update_status_ok monad_defs new_events_def
      split: sum.splits)

theorem audio_without_fps_warns_only_witness:
  "keep_audio clip_state \<and> \<not> keep_fps clip_state \<and> status_ok quiet_env clip_state
   \<and> new_events clip_state (snd (handle_video_audio quiet_env clip_state)) =
       [Status ''DLC.CORE'' (Lit ''Restoring audio might cause issues as fps are not kept...''),
        RestoreAudio (Some ''clip.mp4'') (Some ''out.mp4'')]
   \<and> fst (handle_video_audio quiet_env clip_state) = Return ()"
proof -
  have a: "keep_audio clip_state" "\<not> keep_fps clip_state" "headless clip_state"
    "target_path clip_state = Some ''clip.mp4''" "output_path clip_state = Some ''out.mp4''"
    by (simp_all add: clip_state_def idle_state_def)
  have b: "ret_none quiet_env tr ev = Inr ()" for tr ev
    by (simp add: quiet_env_def)
  from audio_without_fps_warns_only [of clip_state quiet_env] a b
  show ?thesis by (simp add: core_scope_def)
qed

subsection \<open>Cleanup\<close>

text \<open>
  Claim C10. When the target path is \<^verbatim>\<open>None\<close> or empty, \<^verbatim>\<open>destroy\<close> cleans nothing
  and raises no error: with \<^verbatim>\<open>to_quit=False\<close> it returns with the state as it was, and
  with \<^verbatim>\<open>to_quit=True\<close> all it does is \<^verbatim>\<open>quit()\<close>.
\<close>

theorem destroy_without_target:
  "\<not> truthy (target_path s) \<Longrightarrow>
   destroy env False s = (Return (), s) \<and> destroy env True s = (Raise SystemExit, s)"
  by (simp add: destroy_def monad_defs)

theorem destroy_without_target_witness:
  "\<not> truthy (target_path idle_state) \<and> \<not> truthy (target_path (idle_state\<lparr>target_path := Some ''''\<rparr>))
   \<and> destroy quiet_env False idle_state = (Return (), idle_state)
   \<and> destroy quiet_env False (idle_state\<lparr>target_path := Some ''''\<rparr>) =
       (Return (), idle_state\<lparr>target_path := Some ''''\<rparr>)"
  using destroy_without_target [of idle_state quiet_env]
    destroy_without_target [of "idle_state\<lparr>target_path := Some ''''\<rparr>" quiet_env]
  by (simp add: idle_state_def)

subsection \<open>Readiness\<close>

lemma pre_start_loop_not_ready:
  assumes never: "\<And>tr. ret_bool env tr (PreStart fp) = Inr False"
  shows "fp \<in> set ms \<Longrightarrow>
    \<exists>k. snd (pre_start_loop env ms s) = s\<lparr>trace := trace s @ map PreStart (take k ms)\<rparr>
       \<and> fst (pre_start_loop env ms s) \<noteq> Return True"
proof (induction ms arbitrary: s)
  case Nil
  then show ?case by simp
next
  case (Cons x xs)
  let ?s1 = "s\<lparr>trace := trace s @ [PreStart x]\<rparr>"
  show ?case
  proof (cases "ret_bool env (trace s) (PreStart x)")
    case (Inl e)
    then have "snd (pre_start_loop env (x # xs) s) = s\<lparr>trace := trace s @ map PreStart (take 1 (x # xs))\<rparr>"
      and "fst (pre_start_loop env (x # xs) s) \<noteq> Return True"
      by (simp_all add: monad_defs)
    then show ?thesis by blast
  next
    case (Inr ready)
    show ?thesis
    proof (cases ready)
      case False
      with Inr have "snd (pre_start_loop env (x # xs) s) = s\<lparr>trace := trace s @ map PreStart (take 1 (x # xs))\<rparr>"
        and "fst (pre_start_loop env (x # xs) s) \<noteq> Return True"
        by (simp_all add: monad_defs)
      then show ?thesis by blast
    next
      case True
      with Inr never have "x \<noteq> fp" by auto
      with Cons.prems have "fp \<in> set xs" by simp
      from Cons.IH [OF this, of ?s1] obtain k where
        k: "snd (pre_start_loop env xs ?s1) = ?s1\<lparr>trace := trace ?s1 @ map PreStart (take k xs)\<rparr>"
           "fst (pre_start_loop env xs ?s1) \<noteq> Return True"
        by blast
      from Inr True have step: "pre_start_loop env (x # xs) s = pre_start_loop env xs ?s1"
        by (simp add: monad_defs)
      from k have "snd (pre_start_loop env (x # xs) s) =
          s\<lparr>trace := trace s @ map PreStart (take (Suc k) (x # xs))\<rparr>"
        and "fst (pre_start_loop env (x # xs) s) \<noteq> Return True"
        unfolding step by simp_all
      then show ?thesis by blast
    qed
  qed
qed

lemma list_all_readiness_PreStart: "list_all is_readiness (map PreStart xs)"
  by (induction xs) simp_all

text \<open>
  Claim C3. When one of the frame processors reports not-ready whenever it is asked,
  \<^verbatim>\<open>start\<close> does nothing but load the modules and ask processors, in order, whether
  they are ready: no frame processing entry point is called, no workspace is created,
  nothing is copied, extracted, encoded or moved.
\<close>

theorem not_ready_aborts_before_processing:
  "ret_strs env (trace s) (GetFrameProcessorsModules (frame_processors s)) = Inr ms
   \<and> fp \<in> set ms \<and> (\<forall>tr. ret_bool env tr (PreStart fp) = Inr False) \<longrightarrow>
   (\<exists>k. new_events s (snd (start env s)) =
          GetFrameProcessorsModules (frame_processors s) # map PreStart (take k ms))
   \<and> list_all is_readiness (new_events s (snd (start env s)))"
proof (intro impI)
  assume h: "ret_strs env (trace s) (GetFrameProcessorsModules (frame_processors s)) = Inr ms
   \<and> fp \<in> set ms \<and> (\<forall>tr. ret_bool env tr (PreStart fp) = Inr False)"
  let ?g = "GetFrameProcessorsModules (frame_processors s)"
  let ?s1 = "s\<lparr>trace := trace s @ [?g]\<rparr>"
  from h have never: "\<And>tr. ret_bool env tr (PreStart fp) = Inr False" and mem: "fp \<in> set ms"
    and mods: "ret_strs env (trace s) ?g = Inr ms" by simp_all
  from pre_start_loop_not_ready [of env fp ms ?s1, OF never mem] obtain k where
    k: "snd (pre_start_loop env ms ?s1) = ?s1\<lparr>trace := trace ?s1 @ map PreStart (take k ms)\<rparr>"
       "fst (pre_start_loop env ms ?s1) \<noteq> Return True"
    by blast
  obtain r s2 where loop: "pre_start_loop env ms ?s1 = (r, s2)" by (cases "pre_start_loop env ms ?s1")
  with k have s2: "s2 = ?s1\<lparr>trace := trace ?s1 @ map PreStart (take k ms)\<rparr>" and r: "r \<noteq> Return True"
    by simp_all
  have "snd (start env s) = s2"
  proof (cases r)
    case (Return b)
    with r have "b = False" by simp
    with Return loop mods show ?thesis by (simp add: start_def monad_defs)
  next
    case (Raise e)
    with loop mods show ?thesis by (simp add: start_def monad_defs)
  qed
  with s2 have ev: "new_events s (snd (start env s)) = ?g # map PreStart (take k ms)"
    by (simp add: new_events_def)
  have "list_all is_readiness (?g # map PreStart (take k ms))"
    using list_all_readiness_PreStart [of "take k ms"] by simp
  with ev show "(\<exists>k. new_events s (snd (start env s)) = ?g # map PreStart (take k ms))
   \<and> list_all is_readiness (new_events s (snd (start env s)))"
    by auto
qed

theorem not_ready_aborts_before_processing_witness:
  "ret_strs not_ready_env (trace two_processors_state)
       (GetFrameProcessorsModules (frame_processors two_processors_state))
     = Inr [''face_swapper'', ''face_enhancer'']
   \<and> ''face_enhancer'' \<in> set [''face_swapper'', ''face_enhancer'']
   \<and> list_all is_readiness (new_events two_processors_state (snd (start not_ready_env two_processors_state)))"
proof -
  have a: "ret_strs not_ready_env (trace two_processors_state)
       (GetFrameProcessorsModules (frame_processors two_processors_state))
     = Inr [''face_swapper'', ''face_enhancer'']"
    by (simp add: not_ready_env_def quiet_env_def two_processors_state_def clip_state_def idle_state_def)
  have b: "\<forall>tr. ret_bool not_ready_env tr (PreStart ''face_enhancer'') = Inr False"
    by (simp add: not_ready_env_def)
  from not_ready_aborts_before_processing [of not_ready_env two_processors_state
      "[''face_swapper'', ''face_enhancer'']" "''face_enhancer''"] a b
  show ?thesis by simp
qed

text \<open>On the example, the second processor is asked and \<^verbatim>\<open>start\<close> returns.\<close>

lemma start_not_ready_example:
  "new_events two_processors_state (snd (start not_ready_env two_processors_state)) =
     [GetFrameProcessorsModules [''face_swapper'', ''face_enhancer''],
      PreStart ''face_swapper'', PreStart ''face_enhancer'']
   \<and> fst (start not_ready_env two_processors_state) = Return ()"
  by (simp add: start_def monad_defs new_events_def not_ready_env_def quiet_env_def
      two_processors_state_def clip_state_def idle_state_def)

subsection \<open>Invariance of the settings, and the last status line\<close>

lemma preserves_return: "preserves P (py_return x)"
  by (simp add: preserves_def py_return_def)

lemma preserves_raise: "preserves P (py_raise e)"
  by (simp add: preserves_def py_raise_def)

lemma preserves_lift: "preserves P (lift r)"
  by (simp add: preserves_def lift_def)

lemma preserves_emit: "trace_free P \<Longrightarrow> preserves P (emit ev)"
  by (simp add: preserves_def emit_def trace_free_def)

lemma preserves_ext: "trace_free P \<Longrightarrow> preserves P (ext answer ev)"
  by (simp add: preserves_def ext_def trace_free_def)

lemma preserves_bnd:
  assumes f: "preserves P f" and k: "\<And>x. preserves P (k x)"
  shows "preserves P (bnd f k)"
  unfolding preserves_def
proof (intro allI impI)
  fix s assume P: "P s"
  obtain r s1 where fs: "f s = (r, s1)" by (cases "f s")
  with f P have P1: "P s1" by (auto simp: preserves_def)
  show "P (snd (bnd f k s))"
  proof (cases r)
    case (Return x)
    from k [of x] P1 have "P (snd (k x s1))" by (simp add: preserves_def)
    with fs Return show ?thesis by (simp add: bnd_def)
  next
    case (Raise e)
    with fs P1 show ?thesis by (simp add: bnd_def)
  qed
qed

lemma preserves_sq: "preserves P f \<Longrightarrow> preserves P g \<Longrightarrow> preserves P (sq f g)"
  unfolding sq_def by (rule preserves_bnd)

lemma preserves_try:
  assumes b: "preserves P body" and h: "\<And>e. preserves P (handler e)"
  shows "preserves P (try_except body catches handler)"
  unfolding preserves_def
proof (intro allI impI)
  fix s assume P: "P s"
  obtain r s1 where bs: "body s = (r, s1)" by (cases "body s")
  with b P have P1: "P s1" by (auto simp: preserves_def)
  show "P (snd (try_except body catches handler s))"
  proof (cases r)
    case (Return x)
    with bs P1 show ?thesis by (simp add: try_except_def)
  next
    case (Raise e)
    from h [of e] P1 have "P (snd (handler e s1))" by (simp add: preserves_def)
    with bs Raise P1 show ?thesis by (simp add: try_except_def)
  qed
qed

lemma preserves_with_globals: "(\<And>s0. preserves P (g s0)) \<Longrightarrow> preserves P (with_globals g)"
  by (simp add: preserves_def with_globals_def)

lemma preserves_if: "preserves P f \<Longrightarrow> preserves P g \<Longrightarrow> preserves P (if c then f else g)"
  by simp

lemmas preserves_intros = preserves_return preserves_raise preserves_lift preserves_emit
  preserves_ext preserves_bnd preserves_sq preserves_try preserves_with_globals preserves_if



lemma preserves_destroy: "trace_free P \<Longrightarrow> preserves P (destroy env to_quit)"
  unfolding destroy_def by (intro preserves_intros | assumption)+






lemma preservesD: "preserves P f \<Longrightarrow> P s \<Longrightarrow> f s = (r, s') \<Longrightarrow> P s'"
  by (auto simp: preserves_def)

lemma bnd_Return:
  "bnd f k s = (Return y, s') \<Longrightarrow> \<exists>x s1. f s = (Return x, s1) \<and> k x s1 = (Return y, s')"
  by (auto simp: bnd_def split: prod.splits result.splits)

lemma sq_Return:
  "sq f g s = (Return y, s') \<Longrightarrow> \<exists>s1. f s = (Return (), s1) \<and> g s1 = (Return y, s')"
  unfolding sq_def by (drule bnd_Return) auto









subsection \<open>The terminal status\<close>



lemmas pipeline_defs = process_image_to_image_def process_image_to_video_def
  image_to_image_body_def image_to_video_body_def report_image_def report_video_def
  handle_video_fps_def handle_video_audio_def update_status_def release_resources_def
  destroy_def core_scope_def





subsection \<open>The memory ceiling\<close>

lemma lower_examples [simp]:
  "lower ''Linux'' = ''linux''" "lower ''Darwin'' = ''darwin''" "lower ''Windows'' = ''windows''"
  by (simp_all add: lower_def lower_char_def)


lemma example_rlimit [simp]:
  "ret_rlimit quiet_env tr ev = Inr (8589934592, 8589934592)"
  "ret_rlimit rejecting_env tr ev = Inr (8589934592, 8589934592)"
  "ret_none quiet_env tr ev = Inr ()"
  "platform_system quiet_env = ''Linux''" "platform_system rejecting_env = ''Linux''"
  "platform_system darwin_env = ''Darwin''" "platform_system windows_env = ''Windows''"
  "ret_none rejecting_env tr (SetRlimit a b) = Inl (ValueError ''not allowed to raise maximum limit'')"
  by (simp_all add: quiet_env_def rejecting_env_def darwin_env_def windows_env_def)

lemma memory_state_simps [simp]:
  "max_memory (memory_state gb) = Some gb" "trace (memory_state gb) = []"
  by (simp_all add: memory_state_def idle_state_def)



subsection \<open>The keep-audio flag\<close>

lemma program_parse_args_keep_audio:
  "program_parse_args max_memory_default provider_choices threads_default c = Inr args \<Longrightarrow>
   a_keep_audio args"
  by (auto simp: program_parse_args_def store_true_def split: if_splits)

lemma preserves_modify: "(\<And>s. P s \<Longrightarrow> P (f s)) \<Longrightarrow> preserves P (modify f)"
  by (simp add: preserves_def modify_def)

lemma preserves_py_when: "preserves P f \<Longrightarrow> preserves P (py_when c f)"
  by (simp add: py_when_def preserves_return)

lemma preserves_py_when_int: "(\<And>n. preserves P (f n)) \<Longrightarrow> preserves P (py_when_int v f)"
  by (simp add: py_when_int_def preserves_return split: option.splits)

lemma trace_free_keep_audio: "trace_free keep_audio"
  by (simp add: trace_free_def)

lemma preserves_set_execution_providers:
  "preserves keep_audio (set_execution_providers env requested)"
  unfolding set_execution_providers_def decode_execution_providers_def
  by (intro preserves_intros preserves_modify trace_free_keep_audio) simp

lemma preserves_handle_deprecated_args:
  "preserves keep_audio (handle_deprecated_args env args)"
  unfolding handle_deprecated_args_def
  by (intro preserves_intros preserves_modify preserves_py_when preserves_py_when_int
      preserves_set_execution_providers trace_free_keep_audio) simp_all

lemma lift_Return: "lift r s = (Return x, s') \<Longrightarrow> r = Inr x \<and> s' = s"
  by (auto simp: lift_def split: sum.splits)

lemma modify_Return: "modify f s = (r, s') \<Longrightarrow> s' = f s"
  by (simp add: modify_def)

lemma store_args_keep_audio:
  assumes "store_args env args s = (Return (), s')"
  shows "keep_audio s' = a_keep_audio args"
proof -
  let ?rest = "sq (set_execution_providers env (a_execution_provider args))
    (sq (modify (\<lambda>s. s\<lparr>
              execution_threads := a_execution_threads args,
              fp_ui := AList.update ''face_enhancer''
                         (''face_enhancer'' \<in> set (a_frame_processor args)) (fp_ui s),
              nsfw := False\<rparr>))
        (handle_deprecated_args env args))"
  from assms obtain s1 s2 s3 where
    m3: "modify (\<lambda>s. s\<lparr>
              frame_processors := a_frame_processor args,
              headless := (truthy (a_source_path args) \<or> truthy (a_target_path args)
                           \<or> truthy (a_output_path args)),
              keep_fps := a_keep_fps args,
              keep_audio := a_keep_audio args,
              keep_frames := a_keep_frames args,
              many_faces := a_many_faces args,
              video_encoder := a_video_encoder args,
              video_quality := a_video_quality args,
              max_memory := Some (a_max_memory args)\<rparr>) s2 = (Return (), s3)"
    and rest: "?rest s3 = (Return (), s')"
    unfolding store_args_def by (blast dest: sq_Return)
  from modify_Return [OF m3] have k3: "keep_audio s3 = a_keep_audio args" by simp
  show ?thesis
  proof (cases "a_keep_audio args")
    case True
    have "preserves keep_audio ?rest"
      by (intro preserves_intros preserves_modify preserves_set_execution_providers
          preserves_handle_deprecated_args) simp
    from preservesD [OF this _ rest] k3 True show ?thesis by simp
  next
    case False
    have "preserves (\<lambda>x. \<not> keep_audio x) ?rest"
      unfolding set_execution_providers_def decode_execution_providers_def
        handle_deprecated_args_def
      by (intro preserves_intros preserves_modify preserves_py_when preserves_py_when_int)
        (simp_all add: trace_free_def)
    from preservesD [OF this _ rest] k3 False show ?thesis by simp
  qed
qed

lemma parse_args_Return:
  assumes "parse_args env c s = (Return (), s')"
  shows "\<exists>mm ch th args s0. program_parse_args mm ch th c = Inr args
           \<and> store_args env args s0 = (Return (), s')"
proof -
  from assms obtain s1 where
    "with_globals
          (\<lambda>s. bnd (suggest_execution_providers env)
                  (\<lambda>provider_choices.
                     bnd (lift (program_parse_args (suggest_max_memory env) provider_choices
                                  (suggest_execution_threads s) c))
                       (store_args env))) s1 = (Return (), s')"
    unfolding parse_args_def by (blast dest: sq_Return)
  then have "bnd (suggest_execution_providers env)
                  (\<lambda>provider_choices.
                     bnd (lift (program_parse_args (suggest_max_memory env) provider_choices
                                  (suggest_execution_threads s1) c))
                       (store_args env)) s1 = (Return (), s')"
    by (simp add: with_globals_def)
  then obtain ch s2 args s3 where
    "lift (program_parse_args (suggest_max_memory env) ch (suggest_execution_threads s1) c) s2
       = (Return args, s3)"
    and st: "store_args env args s3 = (Return (), s')"
    by (blast dest: bnd_Return)
  from lift_Return [OF this(1)] st show ?thesis by blast
qed

lemma handle_video_audio_never_moves:
  "keep_audio s \<Longrightarrow> MoveTemp p q \<notin> set (new_events s (snd (handle_video_audio env s)))"
  by (auto simp: handle_video_audio_def update_status_def monad_defs new_events_def
      split: sum.splits if_splits)

text \<open>
  Claim C9. Whatever the command line, when \<^verbatim>\<open>parse_args\<close> returns the setting
  \<^verbatim>\<open>keep_audio\<close> is true: the flag is a \<^verbatim>\<open>store_true\<close> action whose default is true, and
  nothing after the parse writes it. With the settings that \<^verbatim>\<open>parse_args\<close> leaves,
  \<^verbatim>\<open>handle_video_audio\<close> never moves the temporary video.
\<close>

theorem keep_audio_always_true:
  "parse_args env c s = (Return (), s') \<longrightarrow>
     keep_audio s'
     \<and> (\<forall>p q. MoveTemp p q \<notin> set (new_events s' (snd (handle_video_audio env s'))))"
proof
  assume "parse_args env c s = (Return (), s')"
  from parse_args_Return [OF this] obtain mm ch th args s0 where
    "program_parse_args mm ch th c = Inr args" "store_args env args s0 = (Return (), s')"
    by blast
  from program_parse_args_keep_audio [OF this(1)] store_args_keep_audio [OF this(2)]
  have "keep_audio s'" by simp
  with handle_video_audio_never_moves [of s' _ _ env]
  show "keep_audio s'
     \<and> (\<forall>p q. MoveTemp p q \<notin> set (new_events s' (snd (handle_video_audio env s'))))"
    by simp
qed

lemmas providers_defs = decode_execution_providers_def decode_providers_def
  encode_execution_providers_def encode_provider_def lower_def lower_char_def py_getitem_def
  suggest_execution_providers_def suggest_max_memory_def suggest_execution_threads_def
  set_execution_providers_def

lemmas parse_defs = parse_args_def store_args_def handle_deprecated_args_def
  program_parse_args_def store_def store_true_def chosen_def chosen_plus_def

text \<open>On the example command line the parse returns.\<close>

lemma parse_args_example:
  "fst (parse_args quiet_env job_cli (idle_state\<lparr>keep_audio := False\<rparr>)) = Return ()"
  by (simp add: parse_defs providers_defs monad_defs quiet_env_def idle_state_def job_cli_def)

theorem keep_audio_always_true_witness:
  "fst (parse_args quiet_env job_cli (idle_state\<lparr>keep_audio := False\<rparr>)) = Return ()
   \<and> \<not> keep_audio (idle_state\<lparr>keep_audio := False\<rparr>)
   \<and> keep_audio (snd (parse_args quiet_env job_cli (idle_state\<lparr>keep_audio := False\<rparr>)))"
proof -
  obtain r s' where rs: "parse_args quiet_env job_cli (idle_state\<lparr>keep_audio := False\<rparr>) = (r, s')"
    by (cases "parse_args quiet_env job_cli (idle_state\<lparr>keep_audio := False\<rparr>)")
  with parse_args_example have "r = Return ()" by simp
  with rs keep_audio_always_true [of quiet_env job_cli "idle_state\<lparr>keep_audio := False\<rparr>" s']
  have "keep_audio s'" by simp
  with rs \<open>r = Return ()\<close> show ?thesis by simp
qed

subsection \<open>Teardown on exit\<close>

lemma run_caught:
  assumes body: "run_body env c s = (Raise e, s1)" and exc: "is_Exception e"
    and tgt: "truthy (target_path s1)" and ok: "status_ok env s1"
  shows "calls (new_events s1 (snd (run env c s))) =
           [Print (UI_initialization_failed e), CleanTemp (target_path s1)]"
    and "\<exists>e'. fst (run env c s) = Raise e'"
proof -
  let ?s2 = "s1\<lparr>trace := trace s1 @ [Print (UI_initialization_failed e)]\<rparr>"
  from ok have ok2: "status_ok env ?s2" by simp
  from body exc have run: "run env c s = run_handler env e s1"
    by (simp add: run_def try_except_def)
  from tgt show "calls (new_events s1 (snd (run env c s))) =
           [Print (UI_initialization_failed e), CleanTemp (target_path s1)]"
    unfolding run run_handler_def
    by (simp add: sq_def bnd_def emit_def update_status_ok [OF ok2] destroy_def with_globals_def
        ext_def py_raise_def new_events_def split: sum.splits)
  from tgt show "\<exists>e'. fst (run env c s) = Raise e'"
    unfolding run run_handler_def
    by (simp add: sq_def bnd_def emit_def update_status_ok [OF ok2] destroy_def with_globals_def
        ext_def py_raise_def split: sum.splits)
qed

text \<open>
  Claim C8. With a target path set: the handler of the interrupt signal calls
  \<^verbatim>\<open>clean_temp\<close> on the target and then quits; a job cut short by the check for unsafe
  content calls \<^verbatim>\<open>clean_temp\<close> on the target right after the check, on the image path
  and on the video path; and when the body of \<^verbatim>\<open>run\<close> raises an \<^verbatim>\<open>Exception\<close>, the
  handler prints, reports the status and calls \<^verbatim>\<open>clean_temp\<close> on the target, after
  which \<^verbatim>\<open>run\<close> ends in an exception (that of \<^verbatim>\<open>quit()\<close> when the cleanup returns).
\<close>

theorem teardown_on_every_exit:
  "(truthy (target_path s) \<longrightarrow>
      new_events s (snd (sigint_handler env s)) = [CleanTemp (target_path s)]
      \<and> fst (sigint_handler env s) =
          (case ret_none env (trace s) (CleanTemp (target_path s)) of
             Inl e \<Rightarrow> Raise e | Inr u \<Rightarrow> Raise SystemExit))
   \<and> (nsfw s \<and> truthy (target_path s)
       \<and> ret_bool env (trace s) (PredictImage (target_path s)) = Inr True \<longrightarrow>
      take 2 (new_events s (snd (process_image_to_image env s))) =
        [PredictImage (target_path s), CleanTemp (target_path s)])
   \<and> (nsfw s \<and> truthy (target_path s)
       \<and> ret_bool env (trace s) (PredictVideo (target_path s)) = Inr True \<longrightarrow>
      take 2 (new_events s (snd (process_image_to_video env s))) =
        [PredictVideo (target_path s), CleanTemp (target_path s)])
   \<and> (run_body env c s = (Raise e, s1) \<and> is_Exception e \<and> truthy (target_path s1)
       \<and> status_ok env s1 \<longrightarrow>
      calls (new_events s1 (snd (run env c s))) =
        [Print (UI_initialization_failed e), CleanTemp (target_path s1)]
      \<and> (\<exists>e'. fst (run env c s) = Raise e'))"
proof (intro conjI impI)
  assume "truthy (target_path s)"
  then show "new_events s (snd (sigint_handler env s)) = [CleanTemp (target_path s)]"
    and "fst (sigint_handler env s) =
          (case ret_none env (trace s) (CleanTemp (target_path s)) of
             Inl e \<Rightarrow> Raise e | Inr u \<Rightarrow> Raise SystemExit)"
    by (simp_all add: sigint_handler_def destroy_def monad_defs new_events_def split: sum.splits)
next
  assume "nsfw s \<and> truthy (target_path s)
       \<and> ret_bool env (trace s) (PredictImage (target_path s)) = Inr True"
  then show "take 2 (new_events s (snd (process_image_to_image env s))) =
        [PredictImage (target_path s), CleanTemp (target_path s)]"
    by (simp add: process_image_to_image_def destroy_def update_status_def monad_defs
        new_events_def split: sum.splits)
next
  assume "nsfw s \<and> truthy (target_path s)
       \<and> ret_bool env (trace s) (PredictVideo (target_path s)) = Inr True"
  then show "take 2 (new_events s (snd (process_image_to_video env s))) =
        [PredictVideo (target_path s), CleanTemp (target_path s)]"
    by (simp add: process_image_to_video_def destroy_def update_status_def monad_defs
        new_events_def split: sum.splits)
next
  assume h: "run_body env c s = (Raise e, s1) \<and> is_Exception e \<and> truthy (target_path s1)
       \<and> status_ok env s1"
  then have b: "run_body env c s = (Raise e, s1)" and x: "is_Exception e"
    and t: "truthy (target_path s1)" and ok: "status_ok env s1"
    by blast+
  from run_caught(1) [OF b x t ok]
  show "calls (new_events s1 (snd (run env c s))) =
        [Print (UI_initialization_failed e), CleanTemp (target_path s1)]" .
  from run_caught(2) [OF b x t ok]
  show "\<exists>e'. fst (run env c s) = Raise e'" .
qed

lemmas run_defs = run_body_def pre_check_def limit_resources_def
  prevent_tensorflow_memory_leak_def limit_memory_usage_def start_def

text \<open>On the example the body of \<^verbatim>\<open>run\<close> raises, in headless mode, with the target set.\<close>

lemma failing_run_example:
  "fst (run_body failing_env job_cli idle_state) = Raise (OtherException ''inference failed'')
   \<and> target_path (snd (run_body failing_env job_cli idle_state)) = Some ''target.png''
   \<and> headless (snd (run_body failing_env job_cli idle_state))"
  by (simp add: run_defs parse_defs providers_defs pipeline_defs monad_defs
      failing_env_def quiet_env_def idle_state_def job_cli_def)

theorem teardown_on_every_exit_witness:
  "new_events clip_state (snd (sigint_handler quiet_env clip_state)) = [CleanTemp (Some ''clip.mp4'')]
   \<and> fst (sigint_handler quiet_env clip_state) = Raise SystemExit
   \<and> take 2 (new_events flagged_state (snd (process_image_to_image quiet_env flagged_state))) =
        [PredictImage (Some ''clip.mp4''), CleanTemp (Some ''clip.mp4'')]
   \<and> take 2 (new_events flagged_state (snd (process_image_to_video quiet_env flagged_state))) =
        [PredictVideo (Some ''clip.mp4''), CleanTemp (Some ''clip.mp4'')]
   \<and> calls (new_events (snd (run_body failing_env job_cli idle_state))
              (snd (run failing_env job_cli idle_state))) =
        [Print (UI_initialization_failed (OtherException ''inference failed'')),
         CleanTemp (Some ''target.png'')]
   \<and> (\<exists>e'. fst (run failing_env job_cli idle_state) = Raise e')"
proof -
  obtain s1 where s1: "run_body failing_env job_cli idle_state =
      (Raise (OtherException ''inference failed''), s1)"
    "target_path s1 = Some ''target.png''" "headless s1"
    using failing_run_example by (cases "run_body failing_env job_cli idle_state") auto
  have ok: "status_ok failing_env s1"
    using s1(3) by (simp add: status_ok_def)
  have a: "truthy (target_path clip_state)" "target_path clip_state = Some ''clip.mp4''"
    "truthy (target_path flagged_state)" "target_path flagged_state = Some ''clip.mp4''"
    "nsfw flagged_state"
    by (simp_all add: clip_state_def idle_state_def flagged_state_def)
  have b: "ret_bool quiet_env tr ev = Inr True" "ret_none quiet_env tr ev = Inr ()" for tr ev
    by (simp_all add: quiet_env_def)
  from teardown_on_every_exit [of clip_state quiet_env job_cli "OtherException ''x''" clip_state]
    teardown_on_every_exit [of flagged_state quiet_env job_cli "OtherException ''x''" flagged_state]
    teardown_on_every_exit [of idle_state failing_env job_cli "OtherException ''inference failed''" s1]
    s1 ok a b
  show ?thesis by simp
qed

end
